theory Spec2Isabelle
  imports Main "HOL-Library.Code_Target_Nat"
begin

section \<open>Schema of the incident-reporting database\<close>

text \<open>
  The four enumerations of the migration (lines 2 to 5), with the labels of the source.
\<close>

datatype app_role = user | admin | cert_admin

datatype incident_status = submitted | under_review | investigating | resolved | closed

datatype threat_level = low | medium | high | critical

datatype incident_type = phishing | malware | fraud | espionage | data_breach | other

text \<open>
  A UUID is an opaque identifier and a \<open>TIMESTAMPTZ\<close> a point on the server's clock;
  both are natural numbers here. A nullable column is an \<open>option\<close>.
\<close>

type_synonym uuid = nat

type_synonym timestamptz = nat

text \<open>
  A JSONB value. \<open>JOther\<close> stands for a number, boolean, array or nested object and carries
  the text that the operator \<open>->>\<close> gives for it.
\<close>

datatype jsonb = JNull | JString string | JOther string | JObject "(string \<times> jsonb) list"



text \<open>A row of \<open>auth.users\<close>, as far as the migration reads it (\<open>NEW.id\<close>,
  \<open>NEW.raw_user_meta_data\<close>).\<close>

record auth_user =
  au_id :: uuid
  au_raw_user_meta_data :: "jsonb option"

record profile =
  pf_id :: uuid
  pf_full_name :: string
  pf_rank :: "string option"
  pf_unit :: "string option"
  pf_phone :: "string option"
  pf_created_at :: timestamptz
  pf_updated_at :: timestamptz

record user_role =
  ur_id :: uuid
  ur_user_id :: uuid
  ur_role :: app_role
  ur_assigned_at :: timestamptz
  ur_assigned_by :: "uuid option"

record incident =
  inc_id :: uuid
  inc_user_id :: uuid
  inc_incident_type :: incident_type
  inc_status :: incident_status
  inc_threat_level :: "threat_level option"
  inc_title :: string
  inc_description :: string
  inc_location :: "string option"
  inc_occurred_at :: "timestamptz option"
  inc_ai_analysis_result :: "jsonb option"
  inc_recommendations :: "string list option"
  inc_assigned_to :: "uuid option"
  inc_priority_score :: "int option"
  inc_created_at :: timestamptz
  inc_updated_at :: timestamptz
  inc_resolved_at :: "timestamptz option"

text \<open>
  The key of a stored object, \<open>{user_id}/{incident_id}/{timestamp}.{ext}\<close>, kept as its
  four components; \<open>(storage.foldername(name))[1]\<close> is the first of them.
\<close>

record object_key =
  key_owner :: uuid
  key_incident :: uuid
  key_stamp :: nat
  key_ext :: string

record incident_file =
  if_id :: uuid
  if_incident_id :: uuid
  if_file_name :: string
  if_file_path :: object_key
  if_file_type :: string
  if_file_size :: "int option"
  if_uploaded_at :: timestamptz

record audit_log =
  al_id :: uuid
  al_user_id :: "uuid option"
  al_action :: string
  al_entity_type :: string
  al_entity_id :: "uuid option"
  al_details :: "jsonb option"
  al_ip_address :: "string option"
  al_created_at :: timestamptz

record storage_object =
  so_bucket_id :: string
  so_name :: object_key
  so_content_type :: string
  so_size :: nat

text \<open>The database: one list of rows for each table.\<close>

record db =
  auth_users :: "auth_user list"
  profiles :: "profile list"
  user_roles :: "user_role list"
  incidents :: "incident list"
  incident_files :: "incident_file list"
  audit_logs :: "audit_log list"
  objects :: "storage_object list"

section \<open>Row-level security\<close>

text \<open>
  \<open>has_role\<close> (lines 79 to 92). The caller \<open>auth.uid()\<close> is NULL for a request without a
  session; a comparison with NULL is never true.
\<close>

definition has_role :: "db \<Rightarrow> uuid option \<Rightarrow> app_role \<Rightarrow> bool" where
  "has_role s uid r =
     (case uid of
        None \<Rightarrow> False
      | Some u \<Rightarrow> list_ex (\<lambda>x. ur_user_id x = u \<and> ur_role x = r) (user_roles s))"

datatype table = T_profiles | T_user_roles | T_incidents | T_incident_files | T_audit_logs

datatype command = FOR_SELECT | FOR_INSERT | FOR_UPDATE | FOR_DELETE | FOR_ALL

datatype row =
    Profile_row profile
  | Role_row user_role
  | Incident_row incident
  | File_row incident_file
  | Audit_row audit_log

fun table_of :: "row \<Rightarrow> table" where
  "table_of (Profile_row _) = T_profiles"
| "table_of (Role_row _) = T_user_roles"
| "table_of (Incident_row _) = T_incidents"
| "table_of (File_row _) = T_incident_files"
| "table_of (Audit_row _) = T_audit_logs"

text \<open>
  The predicates that occur in the policies of the migration. \<open>Exists_own_incident\<close> is
  the correlated subquery of lines 145 to 149 and 155 to 159; the rows of \<open>incidents\<close>
  that it can match are the caller's own, which the caller may select.
\<close>

datatype expr =
    Uid_eq_id
  | Uid_eq_user_id
  | Has_role app_role
  | Or expr expr
  | Exists_own_incident
  | Const_true

fun eval :: "db \<Rightarrow> uuid option \<Rightarrow> row \<Rightarrow> expr \<Rightarrow> bool" where
  "eval s uid (Profile_row p) Uid_eq_id = (uid = Some (pf_id p))"
| "eval s uid _ Uid_eq_id = False"
| "eval s uid (Role_row r) Uid_eq_user_id = (uid = Some (ur_user_id r))"
| "eval s uid (Incident_row i) Uid_eq_user_id = (uid = Some (inc_user_id i))"
| "eval s uid _ Uid_eq_user_id = False"
| "eval s uid _ (Has_role r) = has_role s uid r"
| "eval s uid x (Or a b) = (eval s uid x a \<or> eval s uid x b)"
| "eval s uid (File_row f) Exists_own_incident =
     list_ex (\<lambda>i. inc_id i = if_incident_id f \<and> uid = Some (inc_user_id i)) (incidents s)"
| "eval s uid _ Exists_own_incident = False"
| "eval s uid _ Const_true = True"

record policy =
  pol_name :: string
  pol_table :: table
  pol_cmd :: command
  pol_using :: "expr option"
  pol_check :: "expr option"

definition admin_or_cert :: expr where
  "admin_or_cert = Or (Has_role admin) (Has_role cert_admin)"

text \<open>The policies of lines 94 to 173, in the order of the migration.\<close>

definition policies :: "policy list" where
  "policies =
   [ \<lparr>pol_name = ''Users can view their own profile'', pol_table = T_profiles,
      pol_cmd = FOR_SELECT, pol_using = Some Uid_eq_id, pol_check = None\<rparr>,
     \<lparr>pol_name = ''Users can update their own profile'', pol_table = T_profiles,
      pol_cmd = FOR_UPDATE, pol_using = Some Uid_eq_id, pol_check = None\<rparr>,
     \<lparr>pol_name = ''Users can insert their own profile'', pol_table = T_profiles,
      pol_cmd = FOR_INSERT, pol_using = None, pol_check = Some Uid_eq_id\<rparr>,
     \<lparr>pol_name = ''Admins can view all profiles'', pol_table = T_profiles,
      pol_cmd = FOR_SELECT, pol_using = Some admin_or_cert, pol_check = None\<rparr>,
     \<lparr>pol_name = ''Users can view their own roles'', pol_table = T_user_roles,
      pol_cmd = FOR_SELECT, pol_using = Some Uid_eq_user_id, pol_check = None\<rparr>,
     \<lparr>pol_name = ''Admins can manage all roles'', pol_table = T_user_roles,
      pol_cmd = FOR_ALL, pol_using = Some (Has_role cert_admin), pol_check = None\<rparr>,
     \<lparr>pol_name = ''Users can view their own incidents'', pol_table = T_incidents,
      pol_cmd = FOR_SELECT, pol_using = Some Uid_eq_user_id, pol_check = None\<rparr>,
     \<lparr>pol_name = ''Users can create incidents'', pol_table = T_incidents,
      pol_cmd = FOR_INSERT, pol_using = None, pol_check = Some Uid_eq_user_id\<rparr>,
     \<lparr>pol_name = ''Users can update their own incidents'', pol_table = T_incidents,
      pol_cmd = FOR_UPDATE, pol_using = Some Uid_eq_user_id, pol_check = None\<rparr>,
     \<lparr>pol_name = ''Admins can view all incidents'', pol_table = T_incidents,
      pol_cmd = FOR_SELECT, pol_using = Some admin_or_cert, pol_check = None\<rparr>,
     \<lparr>pol_name = ''Admins can update all incidents'', pol_table = T_incidents,
      pol_cmd = FOR_UPDATE, pol_using = Some admin_or_cert, pol_check = None\<rparr>,
     \<lparr>pol_name = ''Users can view files for their incidents'', pol_table = T_incident_files,
      pol_cmd = FOR_SELECT, pol_using = Some Exists_own_incident, pol_check = None\<rparr>,
     \<lparr>pol_name = ''Users can upload files to their incidents'', pol_table = T_incident_files,
      pol_cmd = FOR_INSERT, pol_using = None, pol_check = Some Exists_own_incident\<rparr>,
     \<lparr>pol_name = ''Admins can view all incident files'', pol_table = T_incident_files,
      pol_cmd = FOR_SELECT, pol_using = Some admin_or_cert, pol_check = None\<rparr>,
     \<lparr>pol_name = ''Admins can view audit logs'', pol_table = T_audit_logs,
      pol_cmd = FOR_SELECT, pol_using = Some (Has_role cert_admin), pol_check = None\<rparr>,
     \<lparr>pol_name = ''System can insert audit logs'', pol_table = T_audit_logs,
      pol_cmd = FOR_INSERT, pol_using = None, pol_check = Some Const_true\<rparr> ]"

text \<open>
  Row-level security is enabled on the five tables (lines 72 to 76) and every policy is
  permissive: the policies of a table that apply to a command (its own and those declared
  \<open>FOR ALL\<close>) are combined by OR, and a row that no policy admits is refused. \<open>USING\<close>
  is evaluated on the existing row, \<open>WITH CHECK\<close> on the proposed row; a policy without
  \<open>WITH CHECK\<close> checks the proposed row by its \<open>USING\<close> predicate.
\<close>

definition applicable :: "command \<Rightarrow> table \<Rightarrow> policy list" where
  "applicable c t =
     filter (\<lambda>p. pol_table p = t \<and> (pol_cmd p = c \<or> pol_cmd p = FOR_ALL)) policies"

definition using_passes :: "db \<Rightarrow> uuid option \<Rightarrow> command \<Rightarrow> row \<Rightarrow> bool" where
  "using_passes s uid c x =
     list_ex (\<lambda>p. case pol_using p of Some e \<Rightarrow> eval s uid x e | None \<Rightarrow> True)
       (applicable c (table_of x))"

definition check_passes :: "db \<Rightarrow> uuid option \<Rightarrow> command \<Rightarrow> row \<Rightarrow> bool" where
  "check_passes s uid c x =
     list_ex (\<lambda>p. case pol_check p of
                     Some e \<Rightarrow> eval s uid x e
                   | None \<Rightarrow> (case pol_using p of Some e \<Rightarrow> eval s uid x e | None \<Rightarrow> True))
       (applicable c (table_of x))"

definition can_select :: "db \<Rightarrow> uuid option \<Rightarrow> row \<Rightarrow> bool" where
  "can_select s uid x = using_passes s uid FOR_SELECT x"

definition can_insert :: "db \<Rightarrow> uuid option \<Rightarrow> row \<Rightarrow> bool" where
  "can_insert s uid x = check_passes s uid FOR_INSERT x"

definition can_update :: "db \<Rightarrow> uuid option \<Rightarrow> row \<Rightarrow> row \<Rightarrow> bool" where
  "can_update s uid old new = (using_passes s uid FOR_UPDATE old \<and> check_passes s uid FOR_UPDATE new)"

definition can_delete :: "db \<Rightarrow> uuid option \<Rightarrow> row \<Rightarrow> bool" where
  "can_delete s uid x = using_passes s uid FOR_DELETE x"

section \<open>Statements issued through the data interface\<close>

datatype error =
    Row_security_violation
  | Unique_violation
  | Foreign_key_violation
  | Not_null_violation
  | Invalid_enum_value
  | Invalid_datetime
  | Numeric_out_of_range
  | Bucket_not_found
  | Payload_too_large
  | Invalid_mime_type
  | Request_failed

text \<open>
  \<open>gen_random_uuid()\<close> is taken to return an identifier that the table does not hold yet.
\<close>

definition gen_random_uuid :: "uuid list \<Rightarrow> uuid" where
  "gen_random_uuid used = Suc (fold max used 0)"

text \<open>Input conversion of the three enumerations that a request body can carry as text.\<close>

definition incident_type_in :: "string \<Rightarrow> incident_type option" where
  "incident_type_in x =
     (if x = ''phishing'' then Some phishing
      else if x = ''malware'' then Some malware
      else if x = ''fraud'' then Some fraud
      else if x = ''espionage'' then Some espionage
      else if x = ''data_breach'' then Some data_breach
      else if x = ''other'' then Some other
      else None)"

definition incident_status_in :: "string \<Rightarrow> incident_status option" where
  "incident_status_in x =
     (if x = ''submitted'' then Some submitted
      else if x = ''under_review'' then Some under_review
      else if x = ''investigating'' then Some investigating
      else if x = ''resolved'' then Some resolved
      else if x = ''closed'' then Some closed
      else None)"

definition threat_level_in :: "string \<Rightarrow> threat_level option" where
  "threat_level_in x =
     (if x = ''low'' then Some low
      else if x = ''medium'' then Some medium
      else if x = ''high'' then Some high
      else if x = ''critical'' then Some critical
      else None)"

text \<open>
  The JSON body of an insert or update on \<open>incidents\<close>: a column is absent (\<open>None\<close>) or
  present; a nullable column that is present may be null. The client sends the
  enumerations as text (\<open>as any\<close>).
\<close>

record incident_body =
  b_id :: "uuid option"
  b_user_id :: "uuid option"
  b_incident_type :: "string option"
  b_status :: "string option"
  b_threat_level :: "string option option"
  b_title :: "string option"
  b_description :: "string option"
  b_location :: "string option option"
  b_occurred_at :: "timestamptz option option"
  b_ai_analysis_result :: "jsonb option option"
  b_recommendations :: "string list option option"
  b_assigned_to :: "uuid option option"
  b_priority_score :: "int option option"
  b_created_at :: "timestamptz option"
  b_updated_at :: "timestamptz option"
  b_resolved_at :: "timestamptz option option"

definition no_columns :: incident_body where
  "no_columns =
     \<lparr>b_id = None, b_user_id = None, b_incident_type = None, b_status = None,
      b_threat_level = None, b_title = None, b_description = None, b_location = None,
      b_occurred_at = None, b_ai_analysis_result = None, b_recommendations = None,
      b_assigned_to = None, b_priority_score = None, b_created_at = None,
      b_updated_at = None, b_resolved_at = None\<rparr>"

definition cast_ok :: "(string \<Rightarrow> 'a option) \<Rightarrow> string option \<Rightarrow> bool" where
  "cast_ok f v = (case v of None \<Rightarrow> True | Some x \<Rightarrow> f x \<noteq> None)"

definition incident_casts_ok :: "incident_body \<Rightarrow> bool" where
  "incident_casts_ok b =
     (cast_ok incident_type_in (b_incident_type b)
      \<and> cast_ok incident_status_in (b_status b)
      \<and> (case b_threat_level b of Some v \<Rightarrow> cast_ok threat_level_in v | None \<Rightarrow> True))"

text \<open>A column of the body when present, the other value (old value or default) when absent.\<close>

definition col :: "'a option \<Rightarrow> 'a \<Rightarrow> 'a" where
  "col v d = (case v of Some x \<Rightarrow> x | None \<Rightarrow> d)"

definition enum_col :: "(string \<Rightarrow> 'a option) \<Rightarrow> string option \<Rightarrow> 'a \<Rightarrow> 'a" where
  "enum_col f v d = (case v of None \<Rightarrow> d | Some x \<Rightarrow> (case f x of Some y \<Rightarrow> y | None \<Rightarrow> d))"

definition threat_col :: "string option option \<Rightarrow> threat_level option \<Rightarrow> threat_level option" where
  "threat_col v d = (case v of None \<Rightarrow> d | Some None \<Rightarrow> None | Some (Some x) \<Rightarrow> threat_level_in x)"

text \<open>The \<open>SET\<close> list of an update built from a body, applied to a row.\<close>

definition incident_set :: "incident_body \<Rightarrow> incident \<Rightarrow> incident" where
  "incident_set b i =
     \<lparr>inc_id = col (b_id b) (inc_id i),
      inc_user_id = col (b_user_id b) (inc_user_id i),
      inc_incident_type = enum_col incident_type_in (b_incident_type b) (inc_incident_type i),
      inc_status = enum_col incident_status_in (b_status b) (inc_status i),
      inc_threat_level = threat_col (b_threat_level b) (inc_threat_level i),
      inc_title = col (b_title b) (inc_title i),
      inc_description = col (b_description b) (inc_description i),
      inc_location = col (b_location b) (inc_location i),
      inc_occurred_at = col (b_occurred_at b) (inc_occurred_at i),
      inc_ai_analysis_result = col (b_ai_analysis_result b) (inc_ai_analysis_result i),
      inc_recommendations = col (b_recommendations b) (inc_recommendations i),
      inc_assigned_to = col (b_assigned_to b) (inc_assigned_to i),
      inc_priority_score = col (b_priority_score b) (inc_priority_score i),
      inc_created_at = col (b_created_at b) (inc_created_at i),
      inc_updated_at = col (b_updated_at b) (inc_updated_at i),
      inc_resolved_at = col (b_resolved_at b) (inc_resolved_at i)\<rparr>"

text \<open>
  The foreign keys of an \<open>incidents\<close> row (lines 31 and 41): \<open>user_id\<close> and, when not
  null, \<open>assigned_to\<close> reference \<open>auth.users\<close>.
\<close>

definition incident_fk_ok :: "db \<Rightarrow> incident \<Rightarrow> bool" where
  "incident_fk_ok s i =
     (inc_user_id i \<in> set (map au_id (auth_users s))
      \<and> (case inc_assigned_to i of
            None \<Rightarrow> True
          | Some a \<Rightarrow> a \<in> set (map au_id (auth_users s))))"

text \<open>
  \<open>INSERT INTO incidents\<close> with the column defaults of lines 29 to 46, returning the new
  row (\<open>.insert(...).select().single()\<close>). \<open>failed\<close> says that the request failed for a
  reason outside the schema. No trigger runs on insert.
\<close>

definition insert_incident ::
  "db \<Rightarrow> uuid option \<Rightarrow> timestamptz \<Rightarrow> incident_body \<Rightarrow> bool \<Rightarrow> error + (db \<times> incident)" where
  "insert_incident s uid now b failed =
     (if failed then Inl Request_failed
      else if \<not> incident_casts_ok b then Inl Invalid_enum_value
      else case b_user_id b of
        None \<Rightarrow> Inl Row_security_violation
      | Some u \<Rightarrow>
         (case b_incident_type b of
            None \<Rightarrow> Inl Not_null_violation
          | Some ty_text \<Rightarrow>
           (case incident_type_in ty_text of
              None \<Rightarrow> Inl Invalid_enum_value
            | Some ty \<Rightarrow>
             (case b_title b of
                None \<Rightarrow> Inl Not_null_violation
              | Some ti \<Rightarrow>
                 (case b_description b of
                    None \<Rightarrow> Inl Not_null_violation
                  | Some de \<Rightarrow>
                     (let new =
                        \<lparr>inc_id = col (b_id b) (gen_random_uuid (map inc_id (incidents s))),
                         inc_user_id = u,
                         inc_incident_type = ty,
                         inc_status = enum_col incident_status_in (b_status b) submitted,
                         inc_threat_level = threat_col (b_threat_level b) None,
                         inc_title = ti,
                         inc_description = de,
                         inc_location = col (b_location b) None,
                         inc_occurred_at = col (b_occurred_at b) None,
                         inc_ai_analysis_result = col (b_ai_analysis_result b) None,
                         inc_recommendations = col (b_recommendations b) None,
                         inc_assigned_to = col (b_assigned_to b) None,
                         inc_priority_score = col (b_priority_score b) (Some 0),
                         inc_created_at = col (b_created_at b) now,
                         inc_updated_at = col (b_updated_at b) now,
                         inc_resolved_at = col (b_resolved_at b) None\<rparr>
                      in if \<not> check_passes s uid FOR_INSERT (Incident_row new)
                           then Inl Row_security_violation
                         else if inc_id new \<in> set (map inc_id (incidents s))
                           then Inl Unique_violation
                         else if \<not> incident_fk_ok s new then Inl Foreign_key_violation
                         else if \<not> using_passes s uid FOR_SELECT (Incident_row new)
                           then Inl Row_security_violation
                         else Inr (s\<lparr>incidents := incidents s @ [new]\<rparr>, new)))))))"

text \<open>\<open>handle_updated_at\<close> (lines 176 to 184) as the two triggers attach it (lines 187 to 195).\<close>

definition set_profiles_updated_at :: "timestamptz \<Rightarrow> profile \<Rightarrow> profile" where
  "set_profiles_updated_at now new = new\<lparr>pf_updated_at := now\<rparr>"

definition set_incidents_updated_at :: "timestamptz \<Rightarrow> incident \<Rightarrow> incident" where
  "set_incidents_updated_at now new = new\<lparr>inc_updated_at := now\<rparr>"

text \<open>
  \<open>UPDATE incidents SET ... WHERE flt\<close>. The rows that the filter selects and that pass
  \<open>USING\<close> are rewritten; the trigger runs on each before it is stored; a rewritten row
  that fails \<open>WITH CHECK\<close> or a constraint fails the statement. A row that
  \<open>incident_files\<close> references cannot change its key.
\<close>

definition update_incidents ::
  "db \<Rightarrow> uuid option \<Rightarrow> timestamptz \<Rightarrow> (incident \<Rightarrow> bool) \<Rightarrow> incident_body \<Rightarrow> error + db" where
  "update_incidents s uid now flt b =
     (let hit = (\<lambda>i. flt i \<and> using_passes s uid FOR_UPDATE (Incident_row i));
          new = (\<lambda>i. set_incidents_updated_at now (incident_set b i));
          rows = map (\<lambda>i. if hit i then new i else i) (incidents s)
      in if \<not> incident_casts_ok b then Inl Invalid_enum_value
         else if list_ex (\<lambda>i. hit i \<and> \<not> check_passes s uid FOR_UPDATE (Incident_row (new i)))
                   (incidents s)
           then Inl Row_security_violation
         else if \<not> distinct (map inc_id rows) then Inl Unique_violation
         else if list_ex (\<lambda>i. hit i \<and> \<not> incident_fk_ok s (new i)) (incidents s)
                 \<or> list_ex (\<lambda>i. hit i \<and> inc_id (new i) \<noteq> inc_id i
                                 \<and> inc_id i \<in> set (map if_incident_id (incident_files s)))
                      (incidents s)
           then Inl Foreign_key_violation
         else Inr (s\<lparr>incidents := rows\<rparr>))"

text \<open>The body of an update on \<open>profiles\<close> and the statement, in the same way.\<close>

record profile_body =
  pb_id :: "uuid option"
  pb_full_name :: "string option"
  pb_rank :: "string option option"
  pb_unit :: "string option option"
  pb_phone :: "string option option"
  pb_created_at :: "timestamptz option"
  pb_updated_at :: "timestamptz option"

definition profile_set :: "profile_body \<Rightarrow> profile \<Rightarrow> profile" where
  "profile_set b p =
     \<lparr>pf_id = col (pb_id b) (pf_id p),
      pf_full_name = col (pb_full_name b) (pf_full_name p),
      pf_rank = col (pb_rank b) (pf_rank p),
      pf_unit = col (pb_unit b) (pf_unit p),
      pf_phone = col (pb_phone b) (pf_phone p),
      pf_created_at = col (pb_created_at b) (pf_created_at p),
      pf_updated_at = col (pb_updated_at b) (pf_updated_at p)\<rparr>"

definition update_profiles ::
  "db \<Rightarrow> uuid option \<Rightarrow> timestamptz \<Rightarrow> (profile \<Rightarrow> bool) \<Rightarrow> profile_body \<Rightarrow> error + db" where
  "update_profiles s uid now flt b =
     (let hit = (\<lambda>p. flt p \<and> using_passes s uid FOR_UPDATE (Profile_row p));
          new = (\<lambda>p. set_profiles_updated_at now (profile_set b p));
          rows = map (\<lambda>p. if hit p then new p else p) (profiles s)
      in if list_ex (\<lambda>p. hit p \<and> \<not> check_passes s uid FOR_UPDATE (Profile_row (new p)))
              (profiles s)
           then Inl Row_security_violation
         else if \<not> distinct (map pf_id rows) then Inl Unique_violation
         else if list_ex (\<lambda>p. hit p \<and> pf_id (new p) \<notin> set (map au_id (auth_users s)))
                   (profiles s)
           then Inl Foreign_key_violation
         else Inr (s\<lparr>profiles := rows\<rparr>))"

text \<open>
  \<open>DELETE FROM incidents WHERE flt\<close>: the rows that pass \<open>USING\<close> go, and with them the
  \<open>incident_files\<close> rows that reference them (\<open>ON DELETE CASCADE\<close>, line 51); a row that
  does not pass stays, without an error.
\<close>

definition delete_incidents :: "db \<Rightarrow> uuid option \<Rightarrow> (incident \<Rightarrow> bool) \<Rightarrow> db" where
  "delete_incidents s uid flt =
     (let gone = filter (\<lambda>i. flt i \<and> using_passes s uid FOR_DELETE (Incident_row i)) (incidents s)
      in s\<lparr>incidents := filter (\<lambda>i. i \<notin> set gone) (incidents s),
           incident_files :=
             filter (\<lambda>f. if_incident_id f \<notin> set (map inc_id gone)) (incident_files s)\<rparr>)"

text \<open>
  \<open>DELETE FROM auth.users WHERE id = u\<close>, issued by the identity provider and not bound
  by row-level security. The references declared \<open>ON DELETE CASCADE\<close> (lines 9, 21, 31
  and 51) take the identity's profile, role assignments and incidents with it, and the
  evidence rows of those incidents; the references without a delete action (lines 24, 41
  and 62) refuse the delete while a remaining row still names the identity.
\<close>

definition delete_auth_users :: "db \<Rightarrow> uuid \<Rightarrow> error + db" where
  "delete_auth_users s u =
     (let gone = filter (\<lambda>i. inc_user_id i = u) (incidents s);
          s' = s\<lparr>auth_users := filter (\<lambda>a. au_id a \<noteq> u) (auth_users s),
                 profiles := filter (\<lambda>p. pf_id p \<noteq> u) (profiles s),
                 user_roles := filter (\<lambda>r. ur_user_id r \<noteq> u) (user_roles s),
                 incidents := filter (\<lambda>i. inc_user_id i \<noteq> u) (incidents s),
                 incident_files :=
                   filter (\<lambda>f. if_incident_id f \<notin> set (map inc_id gone)) (incident_files s)\<rparr>
      in if list_ex (\<lambda>r. ur_assigned_by r = Some u) (user_roles s')
            \<or> list_ex (\<lambda>i. inc_assigned_to i = Some u) (incidents s')
            \<or> list_ex (\<lambda>a. al_user_id a = Some u) (audit_logs s')
           then Inl Foreign_key_violation
         else Inr s')"

section \<open>Bootstrap of a new identity\<close>



section \<open>Evidence storage\<close>

record bucket =
  bk_id :: string
  bk_name :: string
  bk_public :: bool
  bk_file_size_limit :: nat
  bk_allowed_mime_types :: "string list"

text \<open>The bucket of lines 226 to 233.\<close>

definition incident_evidence :: bucket where
  "incident_evidence =
     \<lparr>bk_id = ''incident-evidence'', bk_name = ''incident-evidence'', bk_public = False,
      bk_file_size_limit = 52428800,
      bk_allowed_mime_types =
        [''image/jpeg'', ''image/png'', ''image/gif'', ''video/mp4'', ''video/quicktime'',
         ''audio/mpeg'', ''audio/wav'', ''application/pdf'', ''text/plain'',
         ''application/zip'']\<rparr>"

definition buckets :: "bucket list" where
  "buckets = [incident_evidence]"

text \<open>The browser's \<open>File\<close>: name, media type and size in bytes.\<close>

record js_file =
  f_name :: string
  f_type :: string
  f_size :: nat

definition bucket_allows :: "bucket \<Rightarrow> js_file \<Rightarrow> bool" where
  "bucket_allows b f = (f_size f \<le> bk_file_size_limit b \<and> f_type f \<in> set (bk_allowed_mime_types b))"

text \<open>The insert policy on \<open>storage.objects\<close> (lines 236 to 241).\<close>

definition storage_insert_check :: "uuid option \<Rightarrow> storage_object \<Rightarrow> bool" where
  "storage_insert_check uid ob =
     (so_bucket_id ob = ''incident-evidence'' \<and> uid = Some (key_owner (so_name ob)))"

text \<open>
  \<open>storage.from(bucket).upload(name, file)\<close>. \<open>failed\<close> says that the storage service
  refused or lost the request for a reason that the migration does not declare.
\<close>

definition storage_upload ::
  "db \<Rightarrow> uuid option \<Rightarrow> string \<Rightarrow> object_key \<Rightarrow> js_file \<Rightarrow> bool \<Rightarrow> error + db" where
  "storage_upload s uid bid name f failed =
     (if failed then Inl Request_failed
      else case find (\<lambda>b. bk_id b = bid) buckets of
        None \<Rightarrow> Inl Bucket_not_found
      | Some b \<Rightarrow>
         (let ob = \<lparr>so_bucket_id = bid, so_name = name,
                    so_content_type = f_type f, so_size = f_size f\<rparr>
          in if \<not> f_size f \<le> bk_file_size_limit b then Inl Payload_too_large
             else if f_type f \<notin> set (bk_allowed_mime_types b) then Inl Invalid_mime_type
             else if \<not> storage_insert_check uid ob then Inl Row_security_violation
             else Inr (s\<lparr>objects := objects s @ [ob]\<rparr>)))"

text \<open>\<open>INSERT INTO incident_files\<close> through the data interface (lines 49 to 57).\<close>

record incident_file_body =
  fb_incident_id :: uuid
  fb_file_name :: string
  fb_file_path :: object_key
  fb_file_type :: string
  fb_file_size :: nat

definition insert_incident_file ::
  "db \<Rightarrow> uuid option \<Rightarrow> timestamptz \<Rightarrow> incident_file_body \<Rightarrow> bool \<Rightarrow> error + db" where
  "insert_incident_file s uid now b failed =
     (let new = \<lparr>if_id = gen_random_uuid (map if_id (incident_files s)),
                 if_incident_id = fb_incident_id b,
                 if_file_name = fb_file_name b,
                 if_file_path = fb_file_path b,
                 if_file_type = fb_file_type b,
                 if_file_size = Some (int (fb_file_size b)),
                 if_uploaded_at = now\<rparr>
      in if failed then Inl Request_failed
         else if 2147483647 < fb_file_size b then Inl Numeric_out_of_range
         else if \<not> check_passes s uid FOR_INSERT (File_row new) then Inl Row_security_violation
         else if if_id new \<in> set (map if_id (incident_files s)) then Inl Unique_violation
         else if if_incident_id new \<notin> set (map inc_id (incidents s))
           then Inl Foreign_key_violation
         else Inr (s\<lparr>incident_files := incident_files s @ [new]\<rparr>))"

section \<open>The submission flow of the client\<close>

record form_data =
  fd_title :: string
  fd_description :: string
  fd_incident_type :: string
  fd_location :: string
  fd_occurred_at :: string

text \<open>\<open>file.name.split('.').pop()\<close>: what follows the last dot, the whole name without one.\<close>

definition file_ext :: "string \<Rightarrow> string" where
  "file_ext n = rev (takeWhile (\<lambda>c. c \<noteq> CHR ''.'') (rev n))"

text \<open>
  What the environment contributes while one file is handled: the reading of
  \<open>Date.now()\<close>, whether the upload and the insert fail for a reason outside the schema,
  and the server time of the insert.
\<close>

record step =
  st_date_now :: nat
  st_upload_fails :: bool
  st_insert_fails :: bool
  st_now :: timestamptz

text \<open>
  The loop of lines 75 to 96 in \<open>ReportIncident.tsx\<close>. An upload error is written to the
  console and the loop goes on to the next file; the result of the insert is dropped.
\<close>

fun upload_files :: "db \<Rightarrow> uuid \<Rightarrow> incident \<Rightarrow> (js_file \<times> step) list \<Rightarrow> db \<times> string list" where
  "upload_files s u inc [] = (s, [])"
| "upload_files s u inc ((f, e) # rest) =
     (let fileName = \<lparr>key_owner = u, key_incident = inc_id inc,
                      key_stamp = st_date_now e, key_ext = file_ext (f_name f)\<rparr>
      in case storage_upload s (Some u) ''incident-evidence'' fileName f (st_upload_fails e) of
           Inl uploadError \<Rightarrow>
             (case upload_files s u inc rest of
                (s', console) \<Rightarrow> (s', ''File upload error:'' # console))
         | Inr s1 \<Rightarrow>
             (case insert_incident_file s1 (Some u) (st_now e)
                     \<lparr>fb_incident_id = inc_id inc, fb_file_name = f_name f,
                      fb_file_path = fileName, fb_file_type = f_type f,
                      fb_file_size = f_size f\<rparr>
                     (st_insert_fails e) of
                Inl _ \<Rightarrow> upload_files s1 u inc rest
              | Inr s2 \<Rightarrow> upload_files s2 u inc rest))"

text \<open>
  What the environment contributes to the insert of the incident: the server time, whether
  the request fails outside the schema, and the conversion of the form's date text, which
  is PostgreSQL's and not part of the repository.
\<close>

record submit_env =
  env_now :: timestamptz
  env_insert_fails :: bool
  env_timestamptz_in :: "string \<Rightarrow> timestamptz option"

record submit_result =
  sr_db :: db
  sr_toast :: string
  sr_navigate :: "string option"
  sr_console :: "string list"

text \<open>
  The insert of lines 58 to 69: the form's fields and the caller's id go into the body,
  \<open>formData.occurred_at || null\<close> sends null for the empty text.
\<close>

definition insert_form_incident ::
  "db \<Rightarrow> uuid \<Rightarrow> form_data \<Rightarrow> submit_env \<Rightarrow> error + (db \<times> incident)" where
  "insert_form_incident s u formData env =
     (case (if fd_occurred_at formData = [] then Inr None
            else case env_timestamptz_in env (fd_occurred_at formData) of
                   None \<Rightarrow> Inl Invalid_datetime
                 | Some t \<Rightarrow> Inr (Some t)) of
        Inl e \<Rightarrow> Inl e
      | Inr occurred \<Rightarrow>
          insert_incident s (Some u) (env_now env)
            (no_columns\<lparr>b_user_id := Some u,
               b_title := Some (fd_title formData),
               b_description := Some (fd_description formData),
               b_incident_type := Some (fd_incident_type formData),
               b_location := Some (Some (fd_location formData)),
               b_occurred_at := Some occurred\<rparr>)
            (env_insert_fails env))"

text \<open>\<open>handleSubmit\<close> (lines 40 to 115); \<open>session\<close> is the user of \<open>auth.getUser()\<close>.\<close>

definition handleSubmit ::
  "db \<Rightarrow> uuid option \<Rightarrow> form_data \<Rightarrow> (js_file \<times> step) list \<Rightarrow> submit_env \<Rightarrow> submit_result" where
  "handleSubmit s session formData files env =
     (case session of
        None \<Rightarrow>
          \<lparr>sr_db = s, sr_toast = ''Authentication required'',
           sr_navigate = Some ''/auth'', sr_console = []\<rparr>
      | Some u \<Rightarrow>
         (case insert_form_incident s u formData env of
            Inl incidentError \<Rightarrow>
              \<lparr>sr_db = s, sr_toast = ''Failed to submit incident'',
               sr_navigate = None, sr_console = [''Error:'']\<rparr>
          | Inr (s1, incident) \<Rightarrow>
              (case (if files \<noteq> [] then upload_files s1 u incident files else (s1, [])) of
                 (s2, console) \<Rightarrow>
                   \<lparr>sr_db = s2, sr_toast = ''Incident reported successfully'',
                    sr_navigate = Some ''/dashboard'', sr_console = console\<rparr>)))"

section \<open>The access check of the admin dashboard\<close>






section \<open>A small database for concrete checks\<close>

text \<open>The filter \<open>.eq('id', incidentId)\<close> of the client.\<close>

definition eq_id :: "uuid \<Rightarrow> incident \<Rightarrow> bool" where
  "eq_id x i = (inc_id i = x)"

text \<open>
  Four identities: 1 holds the role \<open>user\<close> only, 2 also \<open>admin\<close>, 3 also
  \<open>cert_admin\<close>, 4 both; identity 1 has filed incident 10.
\<close>

definition example_incident :: incident where
  "example_incident =
     \<lparr>inc_id = 10, inc_user_id = 1, inc_incident_type = phishing, inc_status = submitted,
      inc_threat_level = None, inc_title = ''Suspicious login'', inc_description = ''...'',
      inc_location = None, inc_occurred_at = None, inc_ai_analysis_result = None,
      inc_recommendations = None, inc_assigned_to = None, inc_priority_score = Some 0,
      inc_created_at = 50, inc_updated_at = 50, inc_resolved_at = None\<rparr>"

definition role_row :: "uuid \<Rightarrow> uuid \<Rightarrow> app_role \<Rightarrow> user_role" where
  "role_row k u r =
     \<lparr>ur_id = k, ur_user_id = u, ur_role = r, ur_assigned_at = 0, ur_assigned_by = None\<rparr>"

definition example_db :: db where
  "example_db =
     \<lparr>auth_users =
        [\<lparr>au_id = 1, au_raw_user_meta_data = None\<rparr>,
         \<lparr>au_id = 2, au_raw_user_meta_data = None\<rparr>,
         \<lparr>au_id = 3, au_raw_user_meta_data = None\<rparr>,
         \<lparr>au_id = 4, au_raw_user_meta_data = None\<rparr>],
      profiles = [],
      user_roles =
        [role_row 1 1 user, role_row 2 2 user, role_row 3 2 admin, role_row 4 3 user,
         role_row 5 3 cert_admin, role_row 6 4 user, role_row 7 4 admin,
         role_row 8 4 cert_admin],
      incidents = [example_incident],
      incident_files = [],
      audit_logs = [],
      objects = []\<rparr>"

definition example_file_row :: incident_file where
  "example_file_row =
     \<lparr>if_id = 20, if_incident_id = 10, if_file_name = ''mail.png'',
      if_file_path = \<lparr>key_owner = 1, key_incident = 10, key_stamp = 60, key_ext = ''png''\<rparr>,
      if_file_type = ''image/png'', if_file_size = Some 2048, if_uploaded_at = 60\<rparr>"

definition example_audit_row :: audit_log where
  "example_audit_row =
     \<lparr>al_id = 30, al_user_id = Some 3, al_action = ''assign_role'',
      al_entity_type = ''user_roles'', al_entity_id = None, al_details = None,
      al_ip_address = None, al_created_at = 70\<rparr>"

text \<open>
  An insert body that carries its own \<open>updated_at\<close>, the row that it stores at server
  time 100, and a later body that changes the title.
\<close>

definition future_stamp_body :: incident_body where
  "future_stamp_body =
     no_columns\<lparr>b_user_id := Some 1, b_incident_type := Some ''fraud'',
       b_title := Some ''Invoice'', b_description := Some ''...'',
       b_updated_at := Some 900\<rparr>"

definition future_stamp_incident :: incident where
  "future_stamp_incident =
     \<lparr>inc_id = 11, inc_user_id = 1, inc_incident_type = fraud, inc_status = submitted,
      inc_threat_level = None, inc_title = ''Invoice'', inc_description = ''...'',
      inc_location = None, inc_occurred_at = None, inc_ai_analysis_result = None,
      inc_recommendations = None, inc_assigned_to = None, inc_priority_score = Some 0,
      inc_created_at = 100, inc_updated_at = 900, inc_resolved_at = None\<rparr>"

definition retitle_body :: incident_body where
  "retitle_body = no_columns\<lparr>b_title := Some ''Invoice fraud'', b_updated_at := Some 5\<rparr>"

text \<open>A profile of identity 1 and a body that renames it and carries its own \<open>updated_at\<close>.\<close>

definition example_profile :: profile where
  "example_profile =
     \<lparr>pf_id = 1, pf_full_name = ''User'', pf_rank = None, pf_unit = None, pf_phone = None,
      pf_created_at = 40, pf_updated_at = 40\<rparr>"

definition rename_body :: profile_body where
  "rename_body =
     \<lparr>pb_id = None, pb_full_name = Some ''Asha'', pb_rank = None, pb_unit = None,
      pb_phone = None, pb_created_at = None, pb_updated_at = Some 5\<rparr>"

definition eq_profile_id :: "uuid \<Rightarrow> profile \<Rightarrow> bool" where
  "eq_profile_id x p = (pf_id p = x)"


text \<open>
  A submission by identity 1 with three files: a PNG, an executable that the bucket's list
  of media types does not hold, and a PDF; and the same submission in an environment
  in which the insert of the PDF's metadata fails.
\<close>

definition example_form :: form_data where
  "example_form =
     \<lparr>fd_title = ''Malware on laptop'', fd_description = ''...'',
      fd_incident_type = ''malware'', fd_location = ''HQ'', fd_occurred_at = []\<rparr>"

definition example_env :: submit_env where
  "example_env = \<lparr>env_now = 100, env_insert_fails = False, env_timestamptz_in = (\<lambda>x. None)\<rparr>"

definition png_file :: js_file where
  "png_file = \<lparr>f_name = ''mail.png'', f_type = ''image/png'', f_size = 2048\<rparr>"

definition exe_file :: js_file where
  "exe_file = \<lparr>f_name = ''dropper.exe'', f_type = ''application/x-msdownload'', f_size = 4096\<rparr>"

definition pdf_file :: js_file where
  "pdf_file = \<lparr>f_name = ''report.v2.pdf'', f_type = ''application/pdf'', f_size = 1024\<rparr>"

definition quiet_step :: "nat \<Rightarrow> step" where
  "quiet_step t =
     \<lparr>st_date_now = t, st_upload_fails = False, st_insert_fails = False, st_now = t\<rparr>"


definition lossy_files :: "(js_file \<times> step) list" where
  "lossy_files =
     [(png_file, quiet_step 101), (exe_file, quiet_step 102),
      (pdf_file, (quiet_step 103)\<lparr>st_insert_fails := True\<rparr>)]"

definition malware_incident :: incident where
  "malware_incident =
     \<lparr>inc_id = 11, inc_user_id = 1, inc_incident_type = malware, inc_status = submitted,
      inc_threat_level = None, inc_title = ''Malware on laptop'', inc_description = ''...'',
      inc_location = Some ''HQ'', inc_occurred_at = None, inc_ai_analysis_result = None,
      inc_recommendations = None, inc_assigned_to = None, inc_priority_score = Some 0,
      inc_created_at = 100, inc_updated_at = 100, inc_resolved_at = None\<rparr>"

section \<open>What the policies admit, table by table\<close>

lemma role_policies:
  "using_passes s uid FOR_SELECT (Role_row r) =
     (uid = Some (ur_user_id r) \<or> has_role s uid cert_admin)"
  "check_passes s uid FOR_INSERT (Role_row r) = has_role s uid cert_admin"
  "using_passes s uid FOR_UPDATE (Role_row r) = has_role s uid cert_admin"
  "check_passes s uid FOR_UPDATE (Role_row r) = has_role s uid cert_admin"
  "using_passes s uid FOR_DELETE (Role_row r) = has_role s uid cert_admin"
  by (simp_all add: using_passes_def check_passes_def applicable_def policies_def)

lemma incident_policies:
  "using_passes s uid FOR_SELECT (Incident_row i) =
     (uid = Some (inc_user_id i) \<or> has_role s uid admin \<or> has_role s uid cert_admin)"
  "check_passes s uid FOR_INSERT (Incident_row i) = (uid = Some (inc_user_id i))"
  "using_passes s uid FOR_UPDATE (Incident_row i) =
     (uid = Some (inc_user_id i) \<or> has_role s uid admin \<or> has_role s uid cert_admin)"
  "check_passes s uid FOR_UPDATE (Incident_row i) =
     (uid = Some (inc_user_id i) \<or> has_role s uid admin \<or> has_role s uid cert_admin)"
  "using_passes s uid FOR_DELETE (Incident_row i) = False"
  by (simp_all add: using_passes_def check_passes_def applicable_def policies_def
      admin_or_cert_def)

lemma profile_policies:
  "using_passes s uid FOR_UPDATE (Profile_row p) = (uid = Some (pf_id p))"
  "check_passes s uid FOR_UPDATE (Profile_row p) = (uid = Some (pf_id p))"
  by (simp_all add: using_passes_def check_passes_def applicable_def policies_def)

lemma file_policies:
  "using_passes s uid FOR_SELECT (File_row f) =
     (eval s uid (File_row f) Exists_own_incident
      \<or> has_role s uid admin \<or> has_role s uid cert_admin)"
  "check_passes s uid FOR_INSERT (File_row f) = eval s uid (File_row f) Exists_own_incident"
  by (simp_all add: using_passes_def check_passes_def applicable_def policies_def
      admin_or_cert_def)

lemma audit_policies:
  "using_passes s uid FOR_SELECT (Audit_row a) = has_role s uid cert_admin"
  "check_passes s uid FOR_INSERT (Audit_row a) = True"
  by (simp_all add: using_passes_def check_passes_def applicable_def policies_def)

lemma own_incident_visible:
  "uid = Some (inc_user_id i) \<Longrightarrow> can_select s uid (Incident_row i)"
  by (simp add: can_select_def incident_policies)

lemma example_roles:
  "has_role example_db (Some 1) admin = False"
  "has_role example_db (Some 1) cert_admin = False"
  "has_role example_db (Some 2) admin = True"
  "has_role example_db (Some 2) cert_admin = False"
  "has_role example_db (Some 3) admin = False"
  "has_role example_db (Some 3) cert_admin = True"
  "has_role example_db (Some 4) admin = True"
  "has_role example_db (Some 4) cert_admin = True"
  "has_role example_db None admin = False"
  "has_role example_db None cert_admin = False"
  "has_role example_db (Some (Suc 0)) admin = False"
  "has_role example_db (Some (Suc 0)) cert_admin = False"
  by (simp_all add: has_role_def example_db_def role_row_def)

section \<open>Role assignments\<close>

text \<open>
  Claim C3. A role assignment can be inserted, updated or deleted exactly by a caller who
  holds \<open>cert_admin\<close>: the only policy of \<open>user_roles\<close> that covers these commands is
  ``Admins can manage all roles'', whose predicate is \<open>has_role(auth.uid(), 'cert_admin')\<close>.
  Holding \<open>admin\<close> therefore gives no such right, and a caller without \<open>cert_admin\<close>
  sees exactly the rows whose \<open>user_id\<close> is the caller.
\<close>

theorem role_assignments_cert_admin_only:
  "(can_insert s uid (Role_row r) \<longleftrightarrow> has_role s uid cert_admin)
   \<and> (can_update s uid (Role_row r) (Role_row r') \<longleftrightarrow> has_role s uid cert_admin)
   \<and> (can_delete s uid (Role_row r) \<longleftrightarrow> has_role s uid cert_admin)
   \<and> (\<not> has_role s uid cert_admin \<longrightarrow>
        (can_select s uid (Role_row r) \<longleftrightarrow> uid = Some (ur_user_id r)))"
  by (simp add: can_insert_def can_update_def can_delete_def can_select_def role_policies)

text \<open>
  Identity 2 holds \<open>admin\<close> without \<open>cert_admin\<close>: it can neither grant itself
  \<open>cert_admin\<close> nor touch another's assignment, and sees its own rows only; identity 3,
  a \<open>cert_admin\<close>, can insert.
\<close>

theorem role_assignments_cert_admin_only_witness:
  "has_role example_db (Some 2) admin \<and> \<not> has_role example_db (Some 2) cert_admin
   \<and> \<not> can_insert example_db (Some 2) (Role_row (role_row 9 2 cert_admin))
   \<and> \<not> can_update example_db (Some 2) (Role_row (role_row 3 2 admin))
          (Role_row (role_row 3 2 cert_admin))
   \<and> \<not> can_delete example_db (Some 2) (Role_row (role_row 5 3 cert_admin))
   \<and> can_select example_db (Some 2) (Role_row (role_row 3 2 admin))
   \<and> \<not> can_select example_db (Some 2) (Role_row (role_row 5 3 cert_admin))
   \<and> can_insert example_db (Some 3) (Role_row (role_row 9 2 cert_admin))"
  using role_assignments_cert_admin_only [of example_db "Some 2" "role_row 9 2 cert_admin"]
    role_assignments_cert_admin_only [of example_db "Some 2" "role_row 3 2 admin"
      "role_row 3 2 cert_admin"]
    role_assignments_cert_admin_only [of example_db "Some 2" "role_row 5 3 cert_admin"]
    role_assignments_cert_admin_only [of example_db "Some 3" "role_row 9 2 cert_admin"]
  by (simp add: example_roles role_row_def)

section \<open>The audit log\<close>

text \<open>
  Claim C6. Reading a row of \<open>audit_logs\<close> is admitted exactly for a caller who holds
  \<open>cert_admin\<close>, and inserting one is admitted for every caller, with or without a
  session: the insert policy checks \<open>true\<close>.
\<close>

theorem audit_log_access:
  "(can_select s uid (Audit_row a) \<longleftrightarrow> has_role s uid cert_admin)
   \<and> can_insert s uid' (Audit_row a')"
  by (simp add: can_select_def can_insert_def audit_policies)

text \<open>The admin 2 cannot read, the \<open>cert_admin\<close> 3 can; anyone can write.\<close>

theorem audit_log_access_witness:
  "\<not> can_select example_db (Some 2) (Audit_row example_audit_row)
   \<and> can_select example_db (Some 3) (Audit_row example_audit_row)
   \<and> can_insert example_db None (Audit_row example_audit_row)
   \<and> can_insert example_db (Some 1) (Audit_row example_audit_row)"
  using audit_log_access [of example_db "Some 2" example_audit_row None example_audit_row]
    audit_log_access [of example_db "Some 3" example_audit_row "Some 1" example_audit_row]
  by (simp add: example_roles)

section \<open>Evidence metadata\<close>

text \<open>
  Claim C7. A caller may select a row of \<open>incident_files\<close> exactly when some incident
  with the row's \<open>incident_id\<close> is the caller's, or the caller holds \<open>admin\<close> or
  \<open>cert_admin\<close>; a caller may insert the row exactly when some incident with the row's
  \<open>incident_id\<close> is the caller's. The two roles give no right to insert.
\<close>

theorem evidence_file_access:
  "(can_select s uid (File_row f) \<longleftrightarrow>
      (\<exists>i \<in> set (incidents s). inc_id i = if_incident_id f \<and> uid = Some (inc_user_id i))
      \<or> has_role s uid admin \<or> has_role s uid cert_admin)
   \<and> (can_insert s uid (File_row f) \<longleftrightarrow>
      (\<exists>i \<in> set (incidents s). inc_id i = if_incident_id f \<and> uid = Some (inc_user_id i)))"
  by (simp add: can_select_def can_insert_def file_policies list_ex_iff)

text \<open>
  The filer 1 reads and writes the evidence of incident 10; the admin 2 and the
  \<open>cert_admin\<close> 3 read it and cannot write it.
\<close>

theorem evidence_file_access_witness:
  "can_select example_db (Some 1) (File_row example_file_row)
   \<and> can_insert example_db (Some 1) (File_row example_file_row)
   \<and> can_select example_db (Some 2) (File_row example_file_row)
   \<and> \<not> can_insert example_db (Some 2) (File_row example_file_row)
   \<and> can_select example_db (Some 3) (File_row example_file_row)
   \<and> \<not> can_insert example_db (Some 3) (File_row example_file_row)"
proof -
  have own: "\<exists>i \<in> set (incidents example_db).
      inc_id i = if_incident_id example_file_row \<and> Some 1 = Some (inc_user_id i)"
    by (simp add: example_db_def example_incident_def example_file_row_def)
  have other: "\<not> (\<exists>i \<in> set (incidents example_db).
      inc_id i = if_incident_id example_file_row \<and> Some u = Some (inc_user_id i))"
    if "u \<noteq> 1" for u
    using that by (simp add: example_db_def example_incident_def example_file_row_def)
  show ?thesis
    using evidence_file_access [of example_db "Some 1" example_file_row]
      evidence_file_access [of example_db "Some 2" example_file_row]
      evidence_file_access [of example_db "Some 3" example_file_row]
      own other [of 2] other [of 3]
    by (simp add: example_roles)
qed

section \<open>Incidents: deletion and update\<close>

text \<open>
  Claim C8. No policy of \<open>incidents\<close> covers \<open>DELETE\<close>, so no caller passes for any row
  in any state of the database, and a delete statement issued through the data interface
  leaves the database as it was. Rows of \<open>incidents\<close> do go when their filer's identity
  is deleted: the delete of an identity removes exactly the incidents filed by it.
\<close>

theorem incidents_never_deleted:
  "\<not> can_delete s uid (Incident_row i)
   \<and> delete_incidents s uid flt = s
   \<and> (delete_auth_users s u = Inr s' \<longrightarrow>
        incidents s' = filter (\<lambda>i. inc_user_id i \<noteq> u) (incidents s))"
  by (auto simp: can_delete_def delete_incidents_def incident_policies delete_auth_users_def
      Let_def split: if_splits)

text \<open>
  The filer, the admin and the \<open>cert_admin\<close> of the example all fail to delete incident
  10; it goes when identity 1 is deleted.
\<close>

lemma example_identity_delete:
  "delete_auth_users example_db 1
     = Inr (example_db\<lparr>auth_users :=
                [\<lparr>au_id = 2, au_raw_user_meta_data = None\<rparr>,
                 \<lparr>au_id = 3, au_raw_user_meta_data = None\<rparr>,
                 \<lparr>au_id = 4, au_raw_user_meta_data = None\<rparr>],
              user_roles := tl (user_roles example_db),
              incidents := []\<rparr>)"
  by (simp add: delete_auth_users_def example_db_def example_incident_def role_row_def)

theorem incidents_never_deleted_witness:
  "\<not> can_delete example_db (Some 1) (Incident_row example_incident)
   \<and> \<not> can_delete example_db (Some 2) (Incident_row example_incident)
   \<and> \<not> can_delete example_db (Some 3) (Incident_row example_incident)
   \<and> delete_incidents example_db (Some 3) (eq_id 10) = example_db
   \<and> delete_auth_users example_db 1
     = Inr (example_db\<lparr>auth_users :=
                [\<lparr>au_id = 2, au_raw_user_meta_data = None\<rparr>,
                 \<lparr>au_id = 3, au_raw_user_meta_data = None\<rparr>,
                 \<lparr>au_id = 4, au_raw_user_meta_data = None\<rparr>],
              user_roles := tl (user_roles example_db),
              incidents := []\<rparr>)"
  using incidents_never_deleted [of example_db "Some 1" example_incident "eq_id 10" 1]
    incidents_never_deleted [of example_db "Some 2" example_incident "eq_id 10" 1]
    incidents_never_deleted [of example_db "Some 3" example_incident "eq_id 10" 1]
    example_identity_delete
  by simp

text \<open>
  Claim C1, as the policies have it. An update of an incident is admitted exactly when
  the caller is the filer of the row or holds \<open>admin\<close> or \<open>cert_admin\<close>, before the
  update and after it. The two update policies name no column: the filer's update is
  admitted whichever columns it changes, \<open>status\<close> and \<open>threat_level\<close> included, as
  long as the row stays the filer's. The row that a privileged caller has updated is
  visible to its filer through the select policy.
\<close>

theorem incident_update_policy:
  "(can_update s uid (Incident_row old) (Incident_row new) \<longleftrightarrow>
      (uid = Some (inc_user_id old) \<or> has_role s uid admin \<or> has_role s uid cert_admin)
      \<and> (uid = Some (inc_user_id new) \<or> has_role s uid admin \<or> has_role s uid cert_admin))
   \<and> (can_select s uid' (Incident_row new) \<longleftrightarrow>
      uid' = Some (inc_user_id new) \<or> has_role s uid' admin \<or> has_role s uid' cert_admin)"
  by (simp add: can_update_def can_select_def incident_policies)

text \<open>
  On the example: the admin 2 may set the threat level of incident 10 and the filer 1 sees
  the result; identity 2 without its role would be refused, as identity 1 is on a row
  filed by identity 2.
\<close>

theorem incident_update_policy_witness:
  "can_update example_db (Some 2) (Incident_row example_incident)
     (Incident_row (example_incident\<lparr>inc_threat_level := Some critical\<rparr>))
   \<and> can_select example_db (Some 1)
     (Incident_row (example_incident\<lparr>inc_threat_level := Some critical\<rparr>))
   \<and> can_update example_db (Some 1) (Incident_row example_incident)
     (Incident_row (example_incident\<lparr>inc_title := ''Phishing mail''\<rparr>))
   \<and> \<not> can_update example_db (Some 1) (Incident_row (example_incident\<lparr>inc_user_id := 2\<rparr>))
     (Incident_row (example_incident\<lparr>inc_user_id := 2, inc_status := closed\<rparr>))"
  using incident_update_policy [of example_db "Some 2" example_incident
      "example_incident\<lparr>inc_threat_level := Some critical\<rparr>" "Some 1"]
    incident_update_policy [of example_db "Some 1" example_incident
      "example_incident\<lparr>inc_title := ''Phishing mail''\<rparr>" "Some 1"]
    incident_update_policy [of example_db "Some 1" "example_incident\<lparr>inc_user_id := 2\<rparr>"
      "example_incident\<lparr>inc_user_id := 2, inc_status := closed\<rparr>" "Some 1"]
  by (simp add: example_roles example_incident_def)

text \<open>
  Claim C1 as stated fails: identity 1 holds neither \<open>admin\<close> nor \<open>cert_admin\<close>, has
  filed incident 10, and its update of \<open>status\<close> and \<open>threat_level\<close> of that incident
  passes the policies and is stored.
\<close>

theorem filer_status_update_counterexample:
  "\<not> has_role example_db (Some 1) admin \<and> \<not> has_role example_db (Some 1) cert_admin
   \<and> inc_user_id example_incident = 1
   \<and> can_update example_db (Some 1) (Incident_row example_incident)
        (Incident_row (example_incident\<lparr>inc_status := closed, inc_threat_level := Some low\<rparr>))
   \<and> update_incidents example_db (Some 1) 200 (eq_id 10)
        (no_columns\<lparr>b_status := Some ''closed'', b_threat_level := Some (Some ''low'')\<rparr>)
      = Inr (example_db\<lparr>incidents :=
               [example_incident\<lparr>inc_status := closed, inc_threat_level := Some low,
                  inc_updated_at := 200\<rparr>]\<rparr>)"
  by (simp add: can_update_def update_incidents_def example_db_def example_incident_def
      eq_id_def incident_policies incident_casts_ok_def cast_ok_def no_columns_def
      incident_status_in_def threat_level_in_def incident_set_def col_def enum_col_def
      threat_col_def set_incidents_updated_at_def incident_fk_ok_def has_role_def role_row_def)

section \<open>Fresh identifiers and small facts on lists\<close>

lemma fold_max_bounds:
  "a \<le> fold max xs (a::nat)" "x \<in> set xs \<Longrightarrow> x \<le> fold max xs a"
proof (induction xs arbitrary: a)
  case Nil
  { case 1 show ?case by simp }
  { case 2 then show ?case by simp }
next
  case (Cons y ys)
  { case 1
    have "a \<le> max y a" by simp
    also have "\<dots> \<le> fold max ys (max y a)" by (rule Cons.IH(1))
    finally show ?case by simp }
  { case 2
    then show ?case
    proof (cases "x = y")
      case True
      have "y \<le> max y a" by simp
      also have "\<dots> \<le> fold max ys (max y a)" by (rule Cons.IH(1))
      finally show ?thesis using True by simp
    next
      case False
      with 2 have "x \<in> set ys" by simp
      then show ?thesis using Cons.IH(2) by simp
    qed }
qed

lemma gen_random_uuid_fresh: "gen_random_uuid used \<notin> set used"
proof
  assume "gen_random_uuid used \<in> set used"
  then have "gen_random_uuid used \<le> fold max used 0" by (rule fold_max_bounds(2))
  then show False by (simp add: gen_random_uuid_def)
qed





section \<open>Bootstrap of a new identity: what it stores\<close>





section \<open>Timestamps of updated rows\<close>

lemma update_incidents_rows:
  assumes "update_incidents s uid now flt b = Inr s'"
  shows "incidents s' =
    map (\<lambda>i. if flt i \<and> using_passes s uid FOR_UPDATE (Incident_row i)
              then set_incidents_updated_at now (incident_set b i) else i) (incidents s)"
  using assms by (auto simp: update_incidents_def Let_def split: if_splits)

lemma update_profiles_rows:
  assumes "update_profiles s uid now flt b = Inr s'"
  shows "profiles s' =
    map (\<lambda>p. if flt p \<and> using_passes s uid FOR_UPDATE (Profile_row p)
              then set_profiles_updated_at now (profile_set b p) else p) (profiles s)"
  using assms by (auto simp: update_profiles_def Let_def split: if_splits)

text \<open>
  Claim C4, as the triggers have it. When an update of \<open>incidents\<close> or of \<open>profiles\<close>
  succeeds, every row that it rewrites has the server time of the update as its
  \<open>updated_at\<close>, whatever the body sets and whatever \<open>updated_at\<close> the body carries;
  every other row is as before. The new \<open>updated_at\<close> is therefore not earlier than the
  time of the update, and it is not earlier than the previous \<open>updated_at\<close> provided that
  the previous value is not later than the server time of the update.
\<close>

theorem updated_at_server_assigned:
  "(update_incidents s uid now flt b = Inr s' \<longrightarrow>
      length (incidents s') = length (incidents s)
      \<and> (\<forall>k < length (incidents s).
            if flt (incidents s ! k) \<and> using_passes s uid FOR_UPDATE (Incident_row (incidents s ! k))
            then inc_updated_at (incidents s' ! k) = now
                 \<and> (inc_updated_at (incidents s ! k) \<le> now \<longrightarrow>
                      inc_updated_at (incidents s ! k) \<le> inc_updated_at (incidents s' ! k))
            else incidents s' ! k = incidents s ! k))
   \<and> (update_profiles t uid' now' flt' b' = Inr t' \<longrightarrow>
      length (profiles t') = length (profiles t)
      \<and> (\<forall>k < length (profiles t).
            if flt' (profiles t ! k) \<and> using_passes t uid' FOR_UPDATE (Profile_row (profiles t ! k))
            then pf_updated_at (profiles t' ! k) = now'
                 \<and> (pf_updated_at (profiles t ! k) \<le> now' \<longrightarrow>
                      pf_updated_at (profiles t ! k) \<le> pf_updated_at (profiles t' ! k))
            else profiles t' ! k = profiles t ! k))"
proof (intro conjI impI)
  assume "update_incidents s uid now flt b = Inr s'"
  note rows = update_incidents_rows [OF this]
  show "length (incidents s') = length (incidents s)" by (simp add: rows)
  show "\<forall>k < length (incidents s).
            if flt (incidents s ! k) \<and> using_passes s uid FOR_UPDATE (Incident_row (incidents s ! k))
            then inc_updated_at (incidents s' ! k) = now
                 \<and> (inc_updated_at (incidents s ! k) \<le> now \<longrightarrow>
                      inc_updated_at (incidents s ! k) \<le> inc_updated_at (incidents s' ! k))
            else incidents s' ! k = incidents s ! k"
    by (simp add: rows set_incidents_updated_at_def)
next
  assume "update_profiles t uid' now' flt' b' = Inr t'"
  note rows = update_profiles_rows [OF this]
  show "length (profiles t') = length (profiles t)" by (simp add: rows)
  show "\<forall>k < length (profiles t).
            if flt' (profiles t ! k) \<and> using_passes t uid' FOR_UPDATE (Profile_row (profiles t ! k))
            then pf_updated_at (profiles t' ! k) = now'
                 \<and> (pf_updated_at (profiles t ! k) \<le> now' \<longrightarrow>
                      pf_updated_at (profiles t ! k) \<le> pf_updated_at (profiles t' ! k))
            else profiles t' ! k = profiles t ! k"
    by (simp add: rows set_profiles_updated_at_def)
qed

text \<open>
  On the example both bodies carry \<open>updated_at = 5\<close>; the rows get the server times 200
  and 300.
\<close>

lemma example_update_runs:
  "update_incidents example_db (Some 1) 200 (eq_id 10) retitle_body
     = Inr (example_db\<lparr>incidents :=
              [example_incident\<lparr>inc_title := ''Invoice fraud'', inc_updated_at := 200\<rparr>]\<rparr>)"
  by (simp add: update_incidents_def example_db_def example_incident_def
      eq_id_def incident_policies incident_casts_ok_def cast_ok_def no_columns_def retitle_body_def
      incident_set_def col_def enum_col_def
      threat_col_def set_incidents_updated_at_def incident_fk_ok_def has_role_def role_row_def)

text \<open>
  Claim C4 as stated fails in its consequence about the previous value. No trigger runs
  on insert, so the insert of identity 1 at server time 100 stores the \<open>updated_at = 900\<close>
  that its body carries; the update of that row at server time 200 then stores 200, which
  is earlier than the previous 900.
\<close>

theorem updated_at_future_counterexample:
  "insert_incident example_db (Some 1) 100 future_stamp_body False
     = Inr (example_db\<lparr>incidents := [example_incident, future_stamp_incident]\<rparr>,
            future_stamp_incident)
   \<and> update_incidents (example_db\<lparr>incidents := [example_incident, future_stamp_incident]\<rparr>)
        (Some 1) 200 (eq_id 11) retitle_body
     = Inr (example_db\<lparr>incidents :=
              [example_incident,
               future_stamp_incident\<lparr>inc_title := ''Invoice fraud'', inc_updated_at := 200\<rparr>]\<rparr>)
   \<and> \<not> inc_updated_at future_stamp_incident
       \<le> inc_updated_at
            (future_stamp_incident\<lparr>inc_title := ''Invoice fraud'', inc_updated_at := 200\<rparr>)"
proof (intro conjI)
  show "insert_incident example_db (Some 1) 100 future_stamp_body False
     = Inr (example_db\<lparr>incidents := [example_incident, future_stamp_incident]\<rparr>,
            future_stamp_incident)"
    by (simp add: insert_incident_def example_db_def example_incident_def future_stamp_body_def
        future_stamp_incident_def no_columns_def incident_casts_ok_def cast_ok_def
        incident_type_in_def col_def enum_col_def threat_col_def gen_random_uuid_def
        incident_policies incident_fk_ok_def Let_def)
  show "update_incidents (example_db\<lparr>incidents := [example_incident, future_stamp_incident]\<rparr>)
        (Some 1) 200 (eq_id 11) retitle_body
     = Inr (example_db\<lparr>incidents :=
              [example_incident,
               future_stamp_incident\<lparr>inc_title := ''Invoice fraud'', inc_updated_at := 200\<rparr>]\<rparr>)"
    by (simp add: update_incidents_def example_db_def example_incident_def
      future_stamp_incident_def
      eq_id_def incident_policies incident_casts_ok_def cast_ok_def no_columns_def retitle_body_def
      incident_set_def col_def enum_col_def
      threat_col_def set_incidents_updated_at_def incident_fk_ok_def has_role_def role_row_def)
  show "\<not> inc_updated_at future_stamp_incident
       \<le> inc_updated_at
            (future_stamp_incident\<lparr>inc_title := ''Invoice fraud'', inc_updated_at := 200\<rparr>)"
    by (simp add: future_stamp_incident_def)
qed

lemma example_profile_update_runs:
  "update_profiles (example_db\<lparr>profiles := [example_profile]\<rparr>) (Some 1) 300
       (eq_profile_id 1) rename_body
     = Inr (example_db\<lparr>profiles :=
              [example_profile\<lparr>pf_full_name := ''Asha'', pf_updated_at := 300\<rparr>]\<rparr>)"
  by (simp add: update_profiles_def example_db_def example_profile_def eq_profile_id_def
      profile_policies rename_body_def profile_set_def col_def set_profiles_updated_at_def)

theorem updated_at_server_assigned_witness:
  "update_incidents example_db (Some 1) 200 (eq_id 10) retitle_body
     = Inr (example_db\<lparr>incidents :=
              [example_incident\<lparr>inc_title := ''Invoice fraud'', inc_updated_at := 200\<rparr>]\<rparr>)
   \<and> b_updated_at retitle_body = Some 5
   \<and> inc_updated_at (incidents (example_db\<lparr>incidents :=
              [example_incident\<lparr>inc_title := ''Invoice fraud'', inc_updated_at := 200\<rparr>]\<rparr>) ! 0) = 200
   \<and> inc_updated_at (incidents example_db ! 0) \<le> 200
   \<and> update_profiles (example_db\<lparr>profiles := [example_profile]\<rparr>) (Some 1) 300
       (eq_profile_id 1) rename_body
     = Inr (example_db\<lparr>profiles :=
              [example_profile\<lparr>pf_full_name := ''Asha'', pf_updated_at := 300\<rparr>]\<rparr>)
   \<and> pb_updated_at rename_body = Some 5
   \<and> pf_updated_at (profiles (example_db\<lparr>profiles :=
              [example_profile\<lparr>pf_full_name := ''Asha'', pf_updated_at := 300\<rparr>]\<rparr>) ! 0) = 300"
  using updated_at_server_assigned [THEN conjunct1, rule_format, OF example_update_runs,
      THEN conjunct2, rule_format, of 0]
    updated_at_server_assigned [THEN conjunct2, rule_format, OF example_profile_update_runs,
      THEN conjunct2, rule_format, of 0]
    example_update_runs example_profile_update_runs
  by (simp add: example_db_def example_incident_def retitle_body_def no_columns_def eq_id_def
      rename_body_def)

section \<open>The admin dashboard\<close>











section \<open>The submission flow\<close>

lemma insert_incident_ok:
  assumes "insert_incident s uid now b failed = Inr (s1, inc)"
  shows "s1 = s\<lparr>incidents := incidents s @ [inc]\<rparr>" "uid = Some (inc_user_id inc)"
    "inc_status inc = enum_col incident_status_in (b_status b) submitted"
    "inc_id inc \<notin> set (map inc_id (incidents s))"
  using assms
  by (auto simp: insert_incident_def Let_def incident_policies split: if_splits option.splits)

lemma insert_form_incident_ok:
  assumes "insert_form_incident s u formData env = Inr (s1, inc)"
  shows "s1 = s\<lparr>incidents := incidents s @ [inc]\<rparr>" "inc_user_id inc = u"
    "inc_status inc = submitted" "inc_id inc \<notin> set (map inc_id (incidents s))"
proof -
  from assms obtain b where ins: "insert_incident s (Some u) (env_now env) b (env_insert_fails env) = Inr (s1, inc)"
    and b: "b_status b = None"
    by (auto simp: insert_form_incident_def no_columns_def split: sum.splits if_splits option.splits)
  show "s1 = s\<lparr>incidents := incidents s @ [inc]\<rparr>" by (rule insert_incident_ok(1) [OF ins])
  show "inc_user_id inc = u" using insert_incident_ok(2) [OF ins] by simp
  show "inc_status inc = submitted"
    using insert_incident_ok(3) [OF ins] by (simp add: b enum_col_def)
  show "inc_id inc \<notin> set (map inc_id (incidents s))" by (rule insert_incident_ok(4) [OF ins])
qed


lemma storage_upload_result:
  "storage_upload s (Some u) ''incident-evidence''
      \<lparr>key_owner = u, key_incident = k, key_stamp = n, key_ext = x\<rparr> f failed =
     (if failed then Inl Request_failed
      else if \<not> f_size f \<le> bk_file_size_limit incident_evidence then Inl Payload_too_large
      else if f_type f \<notin> set (bk_allowed_mime_types incident_evidence) then Inl Invalid_mime_type
      else Inr (s\<lparr>objects := objects s @
             [\<lparr>so_bucket_id = ''incident-evidence'',
               so_name = \<lparr>key_owner = u, key_incident = k, key_stamp = n, key_ext = x\<rparr>,
               so_content_type = f_type f, so_size = f_size f\<rparr>]\<rparr>))"
  by (simp add: storage_upload_def buckets_def storage_insert_check_def Let_def
      incident_evidence_def)

lemma insert_incident_file_result:
  assumes "inc \<in> set (incidents s)" "inc_user_id inc = u" "fb_incident_id b = inc_id inc"
    "fb_file_size b \<le> bk_file_size_limit incident_evidence"
  shows "insert_incident_file s (Some u) now b failed =
     (if failed then Inl Request_failed
      else Inr (s\<lparr>incident_files := incident_files s @
             [\<lparr>if_id = gen_random_uuid (map if_id (incident_files s)),
               if_incident_id = inc_id inc,
               if_file_name = fb_file_name b,
               if_file_path = fb_file_path b,
               if_file_type = fb_file_type b,
               if_file_size = Some (int (fb_file_size b)),
               if_uploaded_at = now\<rparr>]\<rparr>))"
proof -
  have own: "list_ex (\<lambda>i. inc_id i = inc_id inc \<and> Some u = Some (inc_user_id i)) (incidents s)"
    using assms(1,2) by (auto simp: list_ex_iff)
  have known: "inc_id inc \<in> inc_id ` set (incidents s)"
    using assms(1) by (rule imageI)
  have small: "\<not> 2147483647 < fb_file_size b"
    using assms(4) by (simp add: incident_evidence_def)
  show ?thesis
    using gen_random_uuid_fresh [of "map if_id (incident_files s)"] own known small
    by (simp add: insert_incident_file_def Let_def file_policies assms(3))
qed


lemma upload_files_effect:
  assumes "inc \<in> set (incidents s)" and "inc_user_id inc = u"
  shows "\<exists>new.
    upload_files s u inc fes =
      (s\<lparr>objects := objects s @ map (\<lambda>(f, e). \<lparr>so_bucket_id = ''incident-evidence'',
                   so_name = \<lparr>key_owner = u, key_incident = inc_id inc,
                              key_stamp = st_date_now e, key_ext = file_ext (f_name f)\<rparr>,
                   so_content_type = f_type f, so_size = f_size f\<rparr>) (filter (\<lambda>(f, e). \<not> st_upload_fails e \<and> bucket_allows incident_evidence f) fes),
         incident_files := incident_files s @ new\<rparr>,
       replicate (length (filter (\<lambda>(f, e). st_upload_fails e \<or> \<not> bucket_allows incident_evidence f) fes)) ''File upload error:'')
    \<and> length new = length (filter (\<lambda>(f, e). \<not> st_upload_fails e \<and> bucket_allows incident_evidence f
                          \<and> \<not> st_insert_fails e) fes)
    \<and> (\<forall>r \<in> set new. if_incident_id r = inc_id inc)"
  using assms(1)
proof (induction fes arbitrary: s)
  case Nil
  show ?case
    by (rule exI [of _ "[]"]) simp
next
  case (Cons fe fes)
  obtain f e where fe: "fe = (f, e)" by (cases fe)
  let ?key = "\<lparr>key_owner = u, key_incident = inc_id inc, key_stamp = st_date_now e,
                key_ext = file_ext (f_name f)\<rparr>"
  let ?ob = "\<lparr>so_bucket_id = ''incident-evidence'', so_name = ?key,
               so_content_type = f_type f, so_size = f_size f\<rparr>"
  let ?s1 = "s\<lparr>objects := objects s @ [?ob]\<rparr>"
  let ?body = "\<lparr>fb_incident_id = inc_id inc, fb_file_name = f_name f,
                 fb_file_path = ?key, fb_file_type = f_type f, fb_file_size = f_size f\<rparr>"
  show ?case
  proof (cases "st_upload_fails e \<or> \<not> bucket_allows incident_evidence f")
    case True
    then have "\<exists>err.
        storage_upload s (Some u) ''incident-evidence'' ?key f (st_upload_fails e) = Inl err"
      by (auto simp: storage_upload_result bucket_allows_def)
    then obtain err where up:
      "storage_upload s (Some u) ''incident-evidence'' ?key f (st_upload_fails e) = Inl err"
      by blast
    from Cons.IH [OF Cons.prems] obtain new where
      ih: "upload_files s u inc fes =
        (s\<lparr>objects := objects s @ map (\<lambda>(f, e). \<lparr>so_bucket_id = ''incident-evidence'',
                   so_name = \<lparr>key_owner = u, key_incident = inc_id inc,
                              key_stamp = st_date_now e, key_ext = file_ext (f_name f)\<rparr>,
                   so_content_type = f_type f, so_size = f_size f\<rparr>) (filter (\<lambda>(f, e). \<not> st_upload_fails e \<and> bucket_allows incident_evidence f) fes),
            incident_files := incident_files s @ new\<rparr>,
         replicate (length (filter (\<lambda>(f, e). st_upload_fails e \<or> \<not> bucket_allows incident_evidence f) fes)) ''File upload error:'')"
      and rest: "length new = length (filter (\<lambda>(f, e). \<not> st_upload_fails e \<and> bucket_allows incident_evidence f
                          \<and> \<not> st_insert_fails e) fes)"
        "\<forall>r \<in> set new. if_incident_id r = inc_id inc"
      by blast
    have step: "upload_files s u inc ((f, e) # fes) =
        (case upload_files s u inc fes of
           (s', console) \<Rightarrow> (s', ''File upload error:'' # console))"
      by (simp only: upload_files.simps Let_def up sum.case)
    show ?thesis
      apply (rule exI [of _ new])
      unfolding fe step ih
      using True rest by auto
  next
    case False
    then have ok: "\<not> st_upload_fails e" "bucket_allows incident_evidence f" by auto
    have up: "storage_upload s (Some u) ''incident-evidence'' ?key f (st_upload_fails e) = Inr ?s1"
      using ok by (simp add: storage_upload_result bucket_allows_def)
    have inc1: "inc \<in> set (incidents ?s1)" using Cons.prems by simp
    have ins: "insert_incident_file ?s1 (Some u) (st_now e) ?body (st_insert_fails e) =
       (if st_insert_fails e then Inl Request_failed
        else Inr (?s1\<lparr>incident_files := incident_files ?s1 @
             [\<lparr>if_id = gen_random_uuid (map if_id (incident_files ?s1)),
               if_incident_id = inc_id inc,
               if_file_name = fb_file_name ?body,
               if_file_path = fb_file_path ?body,
               if_file_type = fb_file_type ?body,
               if_file_size = Some (int (fb_file_size ?body)),
               if_uploaded_at = st_now e\<rparr>]\<rparr>))"
      using ok(2)
      by (intro insert_incident_file_result [OF inc1 assms(2)]) (simp_all add: bucket_allows_def)
    show ?thesis
    proof (cases "st_insert_fails e")
      case True
      from Cons.IH [OF inc1] obtain new where
        ih: "upload_files ?s1 u inc fes =
        (?s1\<lparr>objects := objects ?s1 @ map (\<lambda>(f, e). \<lparr>so_bucket_id = ''incident-evidence'',
                   so_name = \<lparr>key_owner = u, key_incident = inc_id inc,
                              key_stamp = st_date_now e, key_ext = file_ext (f_name f)\<rparr>,
                   so_content_type = f_type f, so_size = f_size f\<rparr>) (filter (\<lambda>(f, e). \<not> st_upload_fails e \<and> bucket_allows incident_evidence f) fes),
            incident_files := incident_files ?s1 @ new\<rparr>,
         replicate (length (filter (\<lambda>(f, e). st_upload_fails e \<or> \<not> bucket_allows incident_evidence f) fes)) ''File upload error:'')"
      and rest: "length new = length (filter (\<lambda>(f, e). \<not> st_upload_fails e \<and> bucket_allows incident_evidence f
                          \<and> \<not> st_insert_fails e) fes)"
        "\<forall>r \<in> set new. if_incident_id r = inc_id inc"
      by blast
      have ins': "insert_incident_file ?s1 (Some u) (st_now e) ?body (st_insert_fails e)
          = Inl Request_failed"
        using ins True by simp
      have step: "upload_files s u inc ((f, e) # fes) = upload_files ?s1 u inc fes"
        by (simp only: upload_files.simps Let_def up ins' sum.case)
      show ?thesis
        apply (rule exI [of _ new])
        unfolding fe step ih
        using True ok rest by simp
    next
      case False
      let ?row = "\<lparr>if_id = gen_random_uuid (map if_id (incident_files s)),
               if_incident_id = inc_id inc,
               if_file_name = f_name f,
               if_file_path = ?key,
               if_file_type = f_type f,
               if_file_size = Some (int (f_size f)),
               if_uploaded_at = st_now e\<rparr>"
      let ?s2 = "s\<lparr>objects := objects s @ [?ob], incident_files := incident_files s @ [?row]\<rparr>"
      have inc2: "inc \<in> set (incidents ?s2)" using Cons.prems by simp
      from Cons.IH [OF inc2] obtain new where
        ih: "upload_files ?s2 u inc fes =
        (?s2\<lparr>objects := objects ?s2 @ map (\<lambda>(f, e). \<lparr>so_bucket_id = ''incident-evidence'',
                   so_name = \<lparr>key_owner = u, key_incident = inc_id inc,
                              key_stamp = st_date_now e, key_ext = file_ext (f_name f)\<rparr>,
                   so_content_type = f_type f, so_size = f_size f\<rparr>) (filter (\<lambda>(f, e). \<not> st_upload_fails e \<and> bucket_allows incident_evidence f) fes),
            incident_files := incident_files ?s2 @ new\<rparr>,
         replicate (length (filter (\<lambda>(f, e). st_upload_fails e \<or> \<not> bucket_allows incident_evidence f) fes)) ''File upload error:'')"
      and rest: "length new = length (filter (\<lambda>(f, e). \<not> st_upload_fails e \<and> bucket_allows incident_evidence f
                          \<and> \<not> st_insert_fails e) fes)"
        "\<forall>r \<in> set new. if_incident_id r = inc_id inc"
      by blast
      have ins': "insert_incident_file ?s1 (Some u) (st_now e) ?body (st_insert_fails e)
          = Inr ?s2"
        using ins False by simp
      have step: "upload_files s u inc ((f, e) # fes) = upload_files ?s2 u inc fes"
        by (simp only: upload_files.simps Let_def up ins' sum.case)
      show ?thesis
        apply (rule exI [of _ "?row # new"])
        unfolding fe step ih
        using False ok rest by simp
    qed
  qed
qed


lemma handleSubmit_effect:
  assumes "insert_form_incident s u formData env = Inr (s1, inc)"
  shows "\<exists>new.
    handleSubmit s (Some u) formData fes env =
      \<lparr>sr_db = s\<lparr>incidents := incidents s @ [inc],
                  objects := objects s @ map (\<lambda>(f, e). \<lparr>so_bucket_id = ''incident-evidence'',
                   so_name = \<lparr>key_owner = u, key_incident = inc_id inc,
                              key_stamp = st_date_now e, key_ext = file_ext (f_name f)\<rparr>,
                   so_content_type = f_type f, so_size = f_size f\<rparr>) (filter (\<lambda>(f, e). \<not> st_upload_fails e \<and> bucket_allows incident_evidence f) fes),
                  incident_files := incident_files s @ new\<rparr>,
       sr_toast = ''Incident reported successfully'',
       sr_navigate = Some ''/dashboard'',
       sr_console = replicate (length (filter (\<lambda>(f, e). st_upload_fails e \<or> \<not> bucket_allows incident_evidence f) fes)) ''File upload error:''\<rparr>
    \<and> length new = length (filter (\<lambda>(f, e). \<not> st_upload_fails e \<and> bucket_allows incident_evidence f
                          \<and> \<not> st_insert_fails e) fes)
    \<and> (\<forall>r \<in> set new. if_incident_id r = inc_id inc)"
proof -
  note ok = insert_form_incident_ok [OF assms]
  have mem: "inc \<in> set (incidents s1)" by (simp add: ok(1))
  from upload_files_effect [OF mem ok(2), of fes] obtain new where
    run: "upload_files s1 u inc fes =
      (s1\<lparr>objects := objects s1 @ map (\<lambda>(f, e). \<lparr>so_bucket_id = ''incident-evidence'',
                   so_name = \<lparr>key_owner = u, key_incident = inc_id inc,
                              key_stamp = st_date_now e, key_ext = file_ext (f_name f)\<rparr>,
                   so_content_type = f_type f, so_size = f_size f\<rparr>) (filter (\<lambda>(f, e). \<not> st_upload_fails e \<and> bucket_allows incident_evidence f) fes),
          incident_files := incident_files s1 @ new\<rparr>,
       replicate (length (filter (\<lambda>(f, e). st_upload_fails e \<or> \<not> bucket_allows incident_evidence f) fes)) ''File upload error:'')"
    and rest: "length new = length (filter (\<lambda>(f, e). \<not> st_upload_fails e \<and> bucket_allows incident_evidence f
                          \<and> \<not> st_insert_fails e) fes)"
      "\<forall>r \<in> set new. if_incident_id r = inc_id inc"
    by blast
  have loop: "(if fes \<noteq> [] then upload_files s1 u inc fes else (s1, [])) = upload_files s1 u inc fes"
    by simp
  have "handleSubmit s (Some u) formData fes env =
      \<lparr>sr_db = s\<lparr>incidents := incidents s @ [inc],
                  objects := objects s @ map (\<lambda>(f, e). \<lparr>so_bucket_id = ''incident-evidence'',
                   so_name = \<lparr>key_owner = u, key_incident = inc_id inc,
                              key_stamp = st_date_now e, key_ext = file_ext (f_name f)\<rparr>,
                   so_content_type = f_type f, so_size = f_size f\<rparr>) (filter (\<lambda>(f, e). \<not> st_upload_fails e \<and> bucket_allows incident_evidence f) fes),
                  incident_files := incident_files s @ new\<rparr>,
       sr_toast = ''Incident reported successfully'',
       sr_navigate = Some ''/dashboard'',
       sr_console = replicate (length (filter (\<lambda>(f, e). st_upload_fails e \<or> \<not> bucket_allows incident_evidence f) fes)) ''File upload error:''\<rparr>"
    unfolding handleSubmit_def option.case assms sum.case prod.case loop run
    using rest(1) by (auto simp: ok(1))
  with rest show ?thesis by blast
qed




text \<open>
  Claim C10. When the insert of the incident succeeds, the flow reports success and
  navigates to the dashboard whatever the inserts of the evidence rows do: the report, the
  console and the stored objects are determined by the uploads alone, and every file whose
  upload is accepted is stored. The evidence rows added are as many as the files whose
  upload and insert both succeed, so an object whose insert fails is stored without a
  row; when every insert fails, the success report comes with no evidence row added.
\<close>

theorem metadata_insert_result_ignored:
  "insert_form_incident s u formData env = Inr (s1, inc) \<longrightarrow>
     sr_toast (handleSubmit s (Some u) formData fes env) = ''Incident reported successfully''
     \<and> sr_navigate (handleSubmit s (Some u) formData fes env) = Some ''/dashboard''
     \<and> sr_console (handleSubmit s (Some u) formData fes env)
        = replicate (length (filter (\<lambda>(f, e). st_upload_fails e \<or> \<not> bucket_allows incident_evidence f) fes)) ''File upload error:''
     \<and> objects (sr_db (handleSubmit s (Some u) formData fes env))
        = objects s @ map (\<lambda>(f, e). \<lparr>so_bucket_id = ''incident-evidence'',
                   so_name = \<lparr>key_owner = u, key_incident = inc_id inc,
                              key_stamp = st_date_now e, key_ext = file_ext (f_name f)\<rparr>,
                   so_content_type = f_type f, so_size = f_size f\<rparr>) (filter (\<lambda>(f, e). \<not> st_upload_fails e \<and> bucket_allows incident_evidence f) fes)
     \<and> (\<exists>new. incident_files (sr_db (handleSubmit s (Some u) formData fes env))
                = incident_files s @ new
              \<and> length new = length (filter (\<lambda>(f, e). \<not> st_upload_fails e \<and> bucket_allows incident_evidence f
                          \<and> \<not> st_insert_fails e) fes))
     \<and> ((\<forall>(f, e) \<in> set fes. st_insert_fails e) \<longrightarrow>
           incident_files (sr_db (handleSubmit s (Some u) formData fes env)) = incident_files s)"
proof
  assume ins: "insert_form_incident s u formData env = Inr (s1, inc)"
  from handleSubmit_effect [OF ins, of fes] obtain new where
    run: "handleSubmit s (Some u) formData fes env =
      \<lparr>sr_db = s\<lparr>incidents := incidents s @ [inc],
                  objects := objects s @ map (\<lambda>(f, e). \<lparr>so_bucket_id = ''incident-evidence'',
                   so_name = \<lparr>key_owner = u, key_incident = inc_id inc,
                              key_stamp = st_date_now e, key_ext = file_ext (f_name f)\<rparr>,
                   so_content_type = f_type f, so_size = f_size f\<rparr>) (filter (\<lambda>(f, e). \<not> st_upload_fails e \<and> bucket_allows incident_evidence f) fes),
                  incident_files := incident_files s @ new\<rparr>,
       sr_toast = ''Incident reported successfully'',
       sr_navigate = Some ''/dashboard'',
       sr_console = replicate (length (filter (\<lambda>(f, e). st_upload_fails e \<or> \<not> bucket_allows incident_evidence f) fes)) ''File upload error:''\<rparr>"
    and len: "length new = length (filter (\<lambda>(f, e). \<not> st_upload_fails e \<and> bucket_allows incident_evidence f
                          \<and> \<not> st_insert_fails e) fes)"
    by blast
  have none: "new = []" if "\<forall>(f, e) \<in> set fes. st_insert_fails e"
  proof -
    from that have "filter (\<lambda>(f, e). \<not> st_upload_fails e \<and> bucket_allows incident_evidence f
                          \<and> \<not> st_insert_fails e) fes = []" by (auto simp: filter_empty_conv)
    with len show ?thesis by simp
  qed
  show "sr_toast (handleSubmit s (Some u) formData fes env) = ''Incident reported successfully''
     \<and> sr_navigate (handleSubmit s (Some u) formData fes env) = Some ''/dashboard''
     \<and> sr_console (handleSubmit s (Some u) formData fes env)
        = replicate (length (filter (\<lambda>(f, e). st_upload_fails e \<or> \<not> bucket_allows incident_evidence f) fes)) ''File upload error:''
     \<and> objects (sr_db (handleSubmit s (Some u) formData fes env))
        = objects s @ map (\<lambda>(f, e). \<lparr>so_bucket_id = ''incident-evidence'',
                   so_name = \<lparr>key_owner = u, key_incident = inc_id inc,
                              key_stamp = st_date_now e, key_ext = file_ext (f_name f)\<rparr>,
                   so_content_type = f_type f, so_size = f_size f\<rparr>) (filter (\<lambda>(f, e). \<not> st_upload_fails e \<and> bucket_allows incident_evidence f) fes)
     \<and> (\<exists>new. incident_files (sr_db (handleSubmit s (Some u) formData fes env))
                = incident_files s @ new
              \<and> length new = length (filter (\<lambda>(f, e). \<not> st_upload_fails e \<and> bucket_allows incident_evidence f
                          \<and> \<not> st_insert_fails e) fes))
     \<and> ((\<forall>(f, e) \<in> set fes. st_insert_fails e) \<longrightarrow>
           incident_files (sr_db (handleSubmit s (Some u) formData fes env)) = incident_files s)"
    using len none by (auto simp: run)
qed


text \<open>
  Identity 1 submits three files, of which the executable is not on the bucket's list:
  two evidence rows are stored and one rejection is logged. With a type that the
  enumeration does not hold, the insert of the incident fails and nothing is stored.
\<close>

lemma example_insert_runs:
  "insert_form_incident example_db 1 example_form example_env
     = Inr (example_db\<lparr>incidents := [example_incident, malware_incident]\<rparr>, malware_incident)"
  by (simp add: insert_form_incident_def insert_incident_def example_db_def example_incident_def
      example_form_def example_env_def malware_incident_def no_columns_def
      incident_casts_ok_def cast_ok_def incident_type_in_def col_def enum_col_def threat_col_def
      gen_random_uuid_def incident_policies incident_fk_ok_def Let_def)


lemma example_file_checks:
  "bucket_allows incident_evidence png_file"
  "\<not> bucket_allows incident_evidence exe_file"
  "bucket_allows incident_evidence pdf_file"
  by (simp_all add: bucket_allows_def incident_evidence_def png_file_def exe_file_def
      pdf_file_def)



text \<open>
  In the second environment the insert for the PDF fails: the PDF is stored in the bucket,
  only the PNG has an evidence row, the console holds only the rejected upload, and the
  flow reports success.
\<close>

theorem metadata_insert_result_ignored_witness:
  "insert_form_incident example_db 1 example_form example_env
     = Inr (example_db\<lparr>incidents := [example_incident, malware_incident]\<rparr>, malware_incident)
   \<and> sr_toast (handleSubmit example_db (Some 1) example_form lossy_files example_env)
       = ''Incident reported successfully''
   \<and> sr_navigate (handleSubmit example_db (Some 1) example_form lossy_files example_env)
       = Some ''/dashboard''
   \<and> sr_console (handleSubmit example_db (Some 1) example_form lossy_files example_env)
       = [''File upload error:'']
   \<and> map so_name (objects (sr_db (handleSubmit example_db (Some 1) example_form lossy_files
                                     example_env)))
       = [\<lparr>key_owner = 1, key_incident = 11, key_stamp = 101, key_ext = ''png''\<rparr>,
          \<lparr>key_owner = 1, key_incident = 11, key_stamp = 103, key_ext = ''pdf''\<rparr>]
   \<and> length (incident_files (sr_db (handleSubmit example_db (Some 1) example_form lossy_files
                                      example_env))) = 1"
proof -
  have none: "incident_files example_db = []" "objects example_db = []"
    by (simp_all add: example_db_def)
  note ok = metadata_insert_result_ignored [of example_db 1 example_form example_env
      "example_db\<lparr>incidents := [example_incident, malware_incident]\<rparr>"
      malware_incident lossy_files, rule_format, OF example_insert_runs]
  have ext: "file_ext (f_name png_file) = ''png''" "file_ext (f_name pdf_file) = ''pdf''"
    by (simp_all add: file_ext_def png_file_def pdf_file_def)
  have up: "filter (\<lambda>(f, e). \<not> st_upload_fails e \<and> bucket_allows incident_evidence f) lossy_files
      = [(png_file, quiet_step 101), (pdf_file, (quiet_step 103)\<lparr>st_insert_fails := True\<rparr>)]"
    by (simp add: lossy_files_def example_file_checks quiet_step_def)
  have rej: "length (filter (\<lambda>(f, e). st_upload_fails e \<or> \<not> bucket_allows incident_evidence f) lossy_files) = 1"
    by (simp add: lossy_files_def example_file_checks quiet_step_def)
  have rec: "length (filter (\<lambda>(f, e). \<not> st_upload_fails e \<and> bucket_allows incident_evidence f
                          \<and> \<not> st_insert_fails e) lossy_files) = 1"
    by (simp add: lossy_files_def example_file_checks quiet_step_def)
  from ok have "length (incident_files (sr_db (handleSubmit example_db (Some 1) example_form
      lossy_files example_env))) = 1"
    unfolding rec by (auto simp: none)
  moreover from ok have "map so_name (objects (sr_db (handleSubmit example_db (Some 1)
      example_form lossy_files example_env)))
       = [\<lparr>key_owner = 1, key_incident = 11, key_stamp = 101, key_ext = ''png''\<rparr>,
          \<lparr>key_owner = 1, key_incident = 11, key_stamp = 103, key_ext = ''pdf''\<rparr>]"
    unfolding up by (simp add: none ext quiet_step_def malware_incident_def)
  moreover from ok have "sr_console (handleSubmit example_db (Some 1) example_form lossy_files
      example_env) = [''File upload error:'']"
    unfolding rej by simp
  ultimately show ?thesis using ok example_insert_runs by simp
qed

end
